theory Spec2Isabelle
  imports Main "HOL-Library.Sublist" "HOL-Library.Word"
begin

section \<open>Data model of lib/auth/register.go\<close>

text \<open>
  Go's \<^verbatim>\<open>[]byte\<close> and \<^verbatim>\<open>string\<close> are both sequences of bytes: a list of 8-bit
  characters. \<^verbatim>\<open>utils.NetAddr\<close> is only passed through to the dialler, so an
  address is kept as its text.
\<close>

type_synonym bytes = string
type_synonym NetAddr = string

text \<open>
  Errors are values. \<^verbatim>\<open>trace.BadParameter(msg)\<close> is \<open>BadParameter msg\<close>,
  \<^verbatim>\<open>trace.Wrap(err)\<close> is \<open>Wrap err\<close>, \<^verbatim>\<open>trace.Wrap(err, msg)\<close> is
  \<open>WrapMsg err msg\<close>; an error raised by a collaborator that is not part of
  register.go (file system, dialler, authority, parsers) is \<open>External msg\<close>.
\<close>

datatype error =
    BadParameter string
  | External string
  | Wrap error
  | WrapMsg error string

text \<open>
  Go scopes field names by struct; HOL record fields are global constants. Where two
  structs of register.go share a field name the later record prefixes it with the
  struct's initials (\<open>rut_\<close> RegisterUsingTokenRequest, \<open>gsk_\<close>
  GenerateServerKeysRequest, \<open>re_\<close> ReRegisterParams).
\<close>

record IdentityID =
  HostUUID :: string
  NodeName :: string
  Role :: string

record RegisterParams =
  DataDir :: string
  Token :: string
  ID :: IdentityID
  Servers :: "NetAddr list"
  AdditionalPrincipals :: "string list"
  PrivateKey :: bytes
  PublicTLSKey :: bytes
  PublicSSHKey :: bytes
  CipherSuites :: "16 word list"
  CAPath :: string
  CAPin :: string
  InsecureSkipCAVerification :: bool

record PackedKeys =
  Key :: bytes
  Cert :: bytes
  TLSCert :: bytes
  TLSCACerts :: "bytes list"

record RegisterUsingTokenRequest =
  rut_Token :: string
  rut_HostID :: string
  rut_NodeName :: string
  rut_Role :: string
  rut_AdditionalPrincipals :: "string list"
  rut_PublicTLSKey :: bytes
  rut_PublicSSHKey :: bytes

record GenerateServerKeysRequest =
  gsk_HostID :: string
  gsk_NodeName :: string
  gsk_Roles :: "string list"
  gsk_AdditionalPrincipals :: "string list"
  gsk_PublicTLSKey :: bytes
  gsk_PublicSSHKey :: bytes

text \<open>
  A parsed \<^verbatim>\<open>*x509.Certificate\<close>: its encoding and the subject common name that
  register.go prints. \<^verbatim>\<open>LocalCAResponse\<close> is what \<^verbatim>\<open>GetLocalCA\<close> returns.
\<close>

record Certificate =
  Raw :: bytes
  SubjectCommonName :: string

record LocalCAResponse =
  TLSCA :: bytes

text \<open>
  The fields of \<^verbatim>\<open>tls.Config\<close> that register.go assigns. \<open>RootCAs = None\<close> is
  Go's nil pool (the host's root set); \<open>Some pool\<close> is an explicit pool.
\<close>

record tls_Config =
  tls_CipherSuites :: "16 word list"
  InsecureSkipVerify :: bool
  RootCAs :: "Certificate list option"

text \<open>A \<^verbatim>\<open>*Client\<close>: a handle, the servers it dials and its TLS configuration.\<close>

record Client =
  client_id :: nat
  client_servers :: "NetAddr list"
  client_tls :: tls_Config

record ReRegisterParams =
  re_Client :: Client
  re_ID :: IdentityID
  re_AdditionalPrincipals :: "string list"
  re_PrivateKey :: bytes
  re_PublicTLSKey :: bytes
  re_PublicSSHKey :: bytes

text \<open>
  Modelled from the spec: the \<^verbatim>\<open>Identity\<close> struct is declared outside
  register.go. Section 3 of the specification gives its attributes: private key, SSH
  certificate, TLS certificate and CA chain.
\<close>

record Identity =
  KeyBytes :: bytes
  CertBytes :: bytes
  TLSCertBytes :: bytes
  TLSCACertsBytes :: "bytes list"

section \<open>Effects: the trace of calls that leave register.go\<close>

text \<open>
  Every call on a collaborator is recorded with its arguments and its answer, in the
  order the code makes it. \<open>EvAuthServerGenerateServerKeys\<close> is the in-process call
  on \<^verbatim>\<open>*AuthServer\<close>; the other call events are operations of the network client.
\<close>

datatype event =
    EvLog string
  | EvNewTLSClient "NetAddr list" tls_Config "error + Client"
  | EvGetLocalCA Client "error + LocalCAResponse"
  | EvRegisterUsingToken Client RegisterUsingTokenRequest "error + PackedKeys"
  | EvGenerateServerKeys Client GenerateServerKeysRequest "error + PackedKeys"
  | EvClose Client
  | EvAuthServerGenerateServerKeys GenerateServerKeysRequest "error + PackedKeys"

record world =
  trace :: "event list"
  next_client :: nat

definition emit :: "event \<Rightarrow> world \<Rightarrow> world" where
  "emit e w = w\<lparr>trace := trace w @ [e]\<rparr>"

text \<open>
  The collaborators register.go calls but does not define, taken as parameters. The
  network operations answer as a function of everything recorded so far, so a stateful
  authority (single-use tokens, a dial that fails the second time) is covered.
  \<open>NewTLSClient\<close> answers \<open>None\<close> when the client is constructed.
\<close>

record env =
  ReadFile :: "string \<Rightarrow> error + bytes"
  ReadPath :: "string \<Rightarrow> error + bytes"
  TLSConfig :: "16 word list \<Rightarrow> tls_Config"
  ParseCertificatePEM :: "bytes \<Rightarrow> error + Certificate"
  CheckSKPI :: "string \<Rightarrow> Certificate \<Rightarrow> error option"
  NewTLSClient :: "event list \<Rightarrow> NetAddr list \<Rightarrow> tls_Config \<Rightarrow> error option"
  GetLocalCA :: "event list \<Rightarrow> Client \<Rightarrow> error + LocalCAResponse"
  RegisterUsingToken ::
    "event list \<Rightarrow> Client \<Rightarrow> RegisterUsingTokenRequest \<Rightarrow> error + PackedKeys"
  GenerateServerKeys ::
    "event list \<Rightarrow> Client \<Rightarrow> GenerateServerKeysRequest \<Rightarrow> error + PackedKeys"
  ReadIdentityFromKeyPair ::
    "bytes \<Rightarrow> bytes \<Rightarrow> bytes \<Rightarrow> bytes list \<Rightarrow> error + Identity"
  HostID :: "IdentityID \<Rightarrow> error + string"

text \<open>The in-process authority handed to \<^verbatim>\<open>LocalRegister\<close>.\<close>

record AuthServer =
  auth_GenerateServerKeys ::
    "event list \<Rightarrow> GenerateServerKeysRequest \<Rightarrow> error + PackedKeys"

subsection \<open>Client operations\<close>

definition NewTLSClient_op ::
  "env \<Rightarrow> NetAddr list \<Rightarrow> tls_Config \<Rightarrow> world \<Rightarrow> (error + Client) \<times> world" where
  "NewTLSClient_op env servers cfg w =
     (case NewTLSClient env (trace w) servers cfg of
        Some err \<Rightarrow> (Inl err, emit (EvNewTLSClient servers cfg (Inl err)) w)
      | None \<Rightarrow>
          (let client = \<lparr>client_id = next_client w, client_servers = servers,
                          client_tls = cfg\<rparr>
           in (Inr client,
               (emit (EvNewTLSClient servers cfg (Inr client)) w)
                 \<lparr>next_client := Suc (next_client w)\<rparr>)))"

definition GetLocalCA_op ::
  "env \<Rightarrow> Client \<Rightarrow> world \<Rightarrow> (error + LocalCAResponse) \<times> world" where
  "GetLocalCA_op env client w =
     (let r = GetLocalCA env (trace w) client in (r, emit (EvGetLocalCA client r) w))"

definition RegisterUsingToken_op ::
  "env \<Rightarrow> Client \<Rightarrow> RegisterUsingTokenRequest \<Rightarrow> world \<Rightarrow> (error + PackedKeys) \<times> world" where
  "RegisterUsingToken_op env client req w =
     (let r = RegisterUsingToken env (trace w) client req
      in (r, emit (EvRegisterUsingToken client req r) w))"

definition GenerateServerKeys_op ::
  "env \<Rightarrow> Client \<Rightarrow> GenerateServerKeysRequest \<Rightarrow> world \<Rightarrow> (error + PackedKeys) \<times> world" where
  "GenerateServerKeys_op env client req w =
     (let r = GenerateServerKeys env (trace w) client req
      in (r, emit (EvGenerateServerKeys client req r) w))"

definition Close :: "Client \<Rightarrow> world \<Rightarrow> world" where
  "Close client w = emit (EvClose client) w"

definition AuthServer_GenerateServerKeys_op ::
  "AuthServer \<Rightarrow> GenerateServerKeysRequest \<Rightarrow> world \<Rightarrow> (error + PackedKeys) \<times> world" where
  "AuthServer_GenerateServerKeys_op authServer req w =
     (let r = auth_GenerateServerKeys authServer (trace w) req
      in (r, emit (EvAuthServerGenerateServerKeys req r) w))"

text \<open>\<^verbatim>\<open>x509.NewCertPool\<close> and \<^verbatim>\<open>CertPool.AddCert\<close> (which skips a duplicate).\<close>

definition NewCertPool :: "Certificate list" where
  "NewCertPool = []"

definition AddCert :: "Certificate list \<Rightarrow> Certificate \<Rightarrow> Certificate list" where
  "AddCert pool cert = (if cert \<in> set pool then pool else pool @ [cert])"

section \<open>Token resolution\<close>

text \<open>\<^verbatim>\<open>strings.HasPrefix(s, prefix)\<close>.\<close>

definition HasPrefix :: "string \<Rightarrow> string \<Rightarrow> bool" where
  "HasPrefix s p = prefix p s"

text \<open>
  \<^verbatim>\<open>strings.TrimSpace\<close> removes leading, then trailing, white space as
  \<^verbatim>\<open>unicode.IsSpace\<close> defines it, reading the bytes as UTF-8. \<open>space_runes\<close>
  lists the UTF-8 encodings of those code points: U+0009 to U+000D, U+0020, U+0085,
  U+00A0, U+1680, U+2000 to U+200A, U+2028, U+2029, U+202F, U+205F and U+3000. A
  byte sequence that is not one of these encodings decodes to a rune that is not white
  space (an invalid byte is the replacement rune), and trimming stops there.
\<close>

definition space_runes :: "string list" where
  "space_runes =
     [[CHR 0x09], [CHR 0x0A], [CHR 0x0B], [CHR 0x0C], [CHR 0x0D], [CHR 0x20],
      [CHR 0xC2, CHR 0x85], [CHR 0xC2, CHR 0xA0],
      [CHR 0xE1, CHR 0x9A, CHR 0x80],
      [CHR 0xE2, CHR 0x80, CHR 0x80], [CHR 0xE2, CHR 0x80, CHR 0x81],
      [CHR 0xE2, CHR 0x80, CHR 0x82], [CHR 0xE2, CHR 0x80, CHR 0x83],
      [CHR 0xE2, CHR 0x80, CHR 0x84], [CHR 0xE2, CHR 0x80, CHR 0x85],
      [CHR 0xE2, CHR 0x80, CHR 0x86], [CHR 0xE2, CHR 0x80, CHR 0x87],
      [CHR 0xE2, CHR 0x80, CHR 0x88], [CHR 0xE2, CHR 0x80, CHR 0x89],
      [CHR 0xE2, CHR 0x80, CHR 0x8A],
      [CHR 0xE2, CHR 0x80, CHR 0xA8], [CHR 0xE2, CHR 0x80, CHR 0xA9],
      [CHR 0xE2, CHR 0x80, CHR 0xAF],
      [CHR 0xE2, CHR 0x81, CHR 0x9F],
      [CHR 0xE3, CHR 0x80, CHR 0x80]]"

function TrimLeftSpace :: "string \<Rightarrow> string" where
  "TrimLeftSpace s =
     (case find (\<lambda>p. prefix p s) space_runes of
        None \<Rightarrow> s
      | Some p \<Rightarrow> TrimLeftSpace (drop (length p) s))"
  by pat_completeness auto
termination
proof (relation "measure length")
  show "wf (measure length)" by simp
next
  fix s p
  assume "find (\<lambda>p. prefix p s) space_runes = Some p"
  then have "p \<in> set space_runes" and ps: "prefix p s"
    by (auto simp: find_Some_iff)
  then have "p \<noteq> []"
    by (auto simp: space_runes_def)
  with ps have "length (drop (length p) s) < length s"
    by (cases s) (auto simp: prefix_def)
  then show "(drop (length p) s, s) \<in> measure length" by simp
qed

function TrimRightSpace :: "string \<Rightarrow> string" where
  "TrimRightSpace s =
     (case find (\<lambda>p. suffix p s) space_runes of
        None \<Rightarrow> s
      | Some p \<Rightarrow> TrimRightSpace (take (length s - length p) s))"
  by pat_completeness auto
termination
proof (relation "measure length")
  show "wf (measure length)" by simp
next
  fix s p
  assume "find (\<lambda>p. suffix p s) space_runes = Some p"
  then have "p \<in> set space_runes" and ps: "suffix p s"
    by (auto simp: find_Some_iff)
  then have "p \<noteq> []"
    by (auto simp: space_runes_def)
  with ps have "length (take (length s - length p) s) < length s"
    by (cases s) (auto simp: suffix_def)
  then show "(take (length s - length p) s, s) \<in> measure length" by simp
qed

declare TrimLeftSpace.simps [simp del] TrimRightSpace.simps [simp del]

definition TrimSpace :: "string \<Rightarrow> string" where
  "TrimSpace s = TrimRightSpace (TrimLeftSpace s)"

text \<open>
  What "trimmed of surrounding white space" means for a result \<open>t\<close> of an input
  \<open>s\<close>: \<open>s\<close> is \<open>t\<close> between two runs of white-space runes, and \<open>t\<close>
  neither starts nor ends with a white-space rune.
\<close>

inductive white_space :: "string \<Rightarrow> bool" where
  empty: "white_space []"
| rune: "p \<in> set space_runes \<Longrightarrow> white_space s \<Longrightarrow> white_space (p @ s)"

definition trimmed :: "string \<Rightarrow> bool" where
  "trimmed t =
     (find (\<lambda>p. prefix p t) space_runes = None \<and>
      find (\<lambda>p. suffix p t) space_runes = None)"

text \<open>
  \<^verbatim>\<open>readToken\<close>: a token that does not start with \<^verbatim>\<open>/\<close> is returned as it is;
  otherwise it names a file. A failed read returns the empty token and a nil error.
\<close>

definition readToken :: "env \<Rightarrow> string \<Rightarrow> error + string" where
  "readToken env token =
     (if \<not> HasPrefix token ''/'' then Inr token
      else (case ReadFile env token of
              Inl err \<Rightarrow> Inr []
            | Inr out \<Rightarrow> Inr (TrimSpace out)))"

section \<open>Trust anchor resolvers\<close>

definition insecure_warning :: string where
  "insecure_warning =
     ''Joining remote cluster with insecure CA configuration to Auth Server. '' @
     ''This may open you up to a Man-In-The-Middle (MITM) attack if an attacker '' @
     ''has privileged network access. Proceed with caution.''"

definition insecureRegisterClient ::
  "env \<Rightarrow> RegisterParams \<Rightarrow> world \<Rightarrow> (error + Client) \<times> world" where
  "insecureRegisterClient env params w =
     (let w0 = emit (EvLog insecure_warning) w;
          tlsConfig = (TLSConfig env (CipherSuites params))\<lparr>InsecureSkipVerify := True\<rparr>
      in (case NewTLSClient_op env (Servers params) tlsConfig w0 of
            (Inl err, w1) \<Rightarrow> (Inl (Wrap err), w1)
          | (Inr client, w1) \<Rightarrow> (Inr client, w1)))"

text \<open>
  \<^verbatim>\<open>pinRegisterClient\<close>. \<^verbatim>\<open>defer client.Close()\<close> binds the phase-1 client when the
  statement runs, so every return after it closes that client, also after the variable
  is assigned the second client.
\<close>

definition pinRegisterClient ::
  "env \<Rightarrow> RegisterParams \<Rightarrow> world \<Rightarrow> (error + Client) \<times> world" where
  "pinRegisterClient env params w =
     (let tlsConfig = (TLSConfig env (CipherSuites params))\<lparr>InsecureSkipVerify := True\<rparr>
      in (case NewTLSClient_op env (Servers params) tlsConfig w of
            (Inl err, w1) \<Rightarrow> (Inl (Wrap err), w1)
          | (Inr client, w1) \<Rightarrow>
              (case GetLocalCA_op env client w1 of
                 (Inl err, w2) \<Rightarrow> (Inl (Wrap err), Close client w2)
               | (Inr localCA, w2) \<Rightarrow>
                   (case ParseCertificatePEM env (TLSCA localCA) of
                      Inl err \<Rightarrow> (Inl (Wrap err), Close client w2)
                    | Inr tlsCA \<Rightarrow>
                        (case CheckSKPI env (CAPin params) tlsCA of
                           Some err \<Rightarrow> (Inl (Wrap err), Close client w2)
                         | None \<Rightarrow>
                             (let w3 = emit (EvLog (''Joining remote cluster '' @
                                          SubjectCommonName tlsCA @ '' with CA pin.'')) w2;
                                  certPool = AddCert NewCertPool tlsCA;
                                  tlsConfig2 = (TLSConfig env (CipherSuites params))
                                                 \<lparr>RootCAs := Some certPool\<rparr>
                              in (case NewTLSClient_op env (Servers params) tlsConfig2 w3 of
                                    (Inl err, w4) \<Rightarrow> (Inl (Wrap err), Close client w4)
                                  | (Inr client2, w4) \<Rightarrow>
                                      (Inr client2, Close client w4))))))))"

definition pathRegisterClient ::
  "env \<Rightarrow> RegisterParams \<Rightarrow> world \<Rightarrow> (error + Client) \<times> world" where
  "pathRegisterClient env params w =
     (case ReadPath env (CAPath params) of
        Inl err \<Rightarrow> (Inl (Wrap err), w)
      | Inr certBytes \<Rightarrow>
          (case ParseCertificatePEM env certBytes of
             Inl err \<Rightarrow>
               (Inl (WrapMsg err (''failed to parse certificate at '' @ CAPath params)), w)
           | Inr cert \<Rightarrow>
               (let w0 = emit (EvLog (''Joining remote cluster '' @
                            SubjectCommonName cert @ '' with CA file.'')) w;
                    certPool = AddCert NewCertPool cert;
                    tlsConfig = (TLSConfig env (CipherSuites params))
                                  \<lparr>RootCAs := Some certPool\<rparr>
                in (case NewTLSClient_op env (Servers params) tlsConfig w0 of
                      (Inl err, w1) \<Rightarrow> (Inl (Wrap err), w1)
                    | (Inr client, w1) \<Rightarrow> (Inr client, w1)))))"

section \<open>Register, ReRegister and LocalRegister\<close>

definition no_strategy_message :: string where
  "no_strategy_message =
     ''to register node, either CA pin, CA path, '' @
     ''or insecure configuration is required''"

text \<open>
  \<^verbatim>\<open>Register\<close>. The \<^verbatim>\<open>switch\<close> is the chain of conditions in the source's order; its
  \<^verbatim>\<open>default\<close> returns before any client exists. \<^verbatim>\<open>defer client.Close()\<close> closes the
  client on both returns that follow it.
\<close>

definition Register ::
  "env \<Rightarrow> RegisterParams \<Rightarrow> world \<Rightarrow> (error + Identity) \<times> world" where
  "Register env params w =
     (case readToken env (Token params) of
        Inl err \<Rightarrow> (Inl (Wrap err), w)
      | Inr tok \<Rightarrow>
          (case (if InsecureSkipCAVerification params
                   then Some (insecureRegisterClient env params w)
                 else if CAPin params \<noteq> []
                   then Some (pinRegisterClient env params w)
                 else if CAPath params \<noteq> []
                   then Some (pathRegisterClient env params w)
                 else None) of
             None \<Rightarrow> (Inl (BadParameter no_strategy_message), w)
           | Some (Inl err, w1) \<Rightarrow> (Inl (Wrap err), w1)
           | Some (Inr client, w1) \<Rightarrow>
               (case RegisterUsingToken_op env client
                       \<lparr>rut_Token = tok,
                        rut_HostID = HostUUID (ID params),
                        rut_NodeName = NodeName (ID params),
                        rut_Role = Role (ID params),
                        rut_AdditionalPrincipals = AdditionalPrincipals params,
                        rut_PublicTLSKey = PublicTLSKey params,
                        rut_PublicSSHKey = PublicSSHKey params\<rparr> w1 of
                  (Inl err, w2) \<Rightarrow> (Inl (Wrap err), Close client w2)
                | (Inr keys, w2) \<Rightarrow>
                    (ReadIdentityFromKeyPair env (PrivateKey params)
                       (Cert keys) (TLSCert keys) (TLSCACerts keys),
                     Close client w2))))"

definition ReRegister ::
  "env \<Rightarrow> ReRegisterParams \<Rightarrow> world \<Rightarrow> (error + Identity) \<times> world" where
  "ReRegister env params w =
     (case HostID env (re_ID params) of
        Inl err \<Rightarrow> (Inl (Wrap err), w)
      | Inr hostID \<Rightarrow>
          (case GenerateServerKeys_op env (re_Client params)
                  \<lparr>gsk_HostID = hostID,
                   gsk_NodeName = NodeName (re_ID params),
                   gsk_Roles = [Role (re_ID params)],
                   gsk_AdditionalPrincipals = re_AdditionalPrincipals params,
                   gsk_PublicTLSKey = re_PublicTLSKey params,
                   gsk_PublicSSHKey = re_PublicSSHKey params\<rparr> w of
             (Inl err, w1) \<Rightarrow> (Inl (Wrap err), w1)
           | (Inr keys, w1) \<Rightarrow>
               (ReadIdentityFromKeyPair env (re_PrivateKey params)
                  (Cert keys) (TLSCert keys) (TLSCACerts keys), w1)))"

text \<open>
  \<^verbatim>\<open>LocalRegister\<close>. The request leaves both public keys unset (nil, the empty
  byte sequence), and the identity is read from the key the authority returns.
\<close>

definition LocalRegister ::
  "env \<Rightarrow> IdentityID \<Rightarrow> AuthServer \<Rightarrow> string list \<Rightarrow> world \<Rightarrow> (error + Identity) \<times> world" where
  "LocalRegister env ident authServer additionalPrincipals w =
     (case AuthServer_GenerateServerKeys_op authServer
             \<lparr>gsk_HostID = HostUUID ident,
              gsk_NodeName = NodeName ident,
              gsk_Roles = [Role ident],
              gsk_AdditionalPrincipals = additionalPrincipals,
              gsk_PublicTLSKey = [],
              gsk_PublicSSHKey = []\<rparr> w of
        (Inl err, w1) \<Rightarrow> (Inl (Wrap err), w1)
      | (Inr keys, w1) \<Rightarrow>
          (ReadIdentityFromKeyPair env (Key keys) (Cert keys) (TLSCert keys)
             (TLSCACerts keys), w1))"

section \<open>Reading a trace\<close>

text \<open>The events a call appends: what the later world records beyond the earlier one.\<close>

definition new_events :: "world \<Rightarrow> world \<Rightarrow> event list" where
  "new_events w w' = drop (length (trace w)) (trace w')"

fun opened_client :: "event \<Rightarrow> Client list" where
  "opened_client (EvNewTLSClient servers cfg (Inr client)) = [client]"
| "opened_client e = []"

fun closed_client :: "event \<Rightarrow> Client list" where
  "closed_client (EvClose client) = [client]"
| "closed_client e = []"

definition opened_clients :: "event list \<Rightarrow> Client list" where
  "opened_clients evs = concat (map opened_client evs)"

definition closed_clients :: "event list \<Rightarrow> Client list" where
  "closed_clients evs = concat (map closed_client evs)"

fun is_GetLocalCA :: "event \<Rightarrow> bool" where
  "is_GetLocalCA (EvGetLocalCA client r) = True"
| "is_GetLocalCA e = False"

fun is_RegisterUsingToken :: "event \<Rightarrow> bool" where
  "is_RegisterUsingToken (EvRegisterUsingToken client req r) = True"
| "is_RegisterUsingToken e = False"


text \<open>
  An operation of the network client: constructing one, a call on one, closing one.
  The log and the in-process authority are not.
\<close>

fun is_client_operation :: "event \<Rightarrow> bool" where
  "is_client_operation (EvLog msg) = False"
| "is_client_operation (EvAuthServerGenerateServerKeys req r) = False"
| "is_client_operation e = True"

section \<open>The specification's reading of strategy selection and of local issuance\<close>

text \<open>
  Section 4.1 of the specification: insecure flag set, else CA pin non-empty, else CA
  path non-empty, else no strategy.
\<close>

datatype strategy = Insecure | Pin | Path

definition select_strategy :: "RegisterParams \<Rightarrow> strategy option" where
  "select_strategy params =
     (if InsecureSkipCAVerification params then Some Insecure
      else if CAPin params \<noteq> [] then Some Pin
      else if CAPath params \<noteq> [] then Some Path
      else None)"

fun strategy_client ::
  "strategy \<Rightarrow> env \<Rightarrow> RegisterParams \<Rightarrow> world \<Rightarrow> (error + Client) \<times> world" where
  "strategy_client Insecure = insecureRegisterClient"
| "strategy_client Pin = pinRegisterClient"
| "strategy_client Path = pathRegisterClient"

text \<open>
  What \<^verbatim>\<open>Register\<close> does with the outcome of the chosen resolver (the source from
  the error check after the \<^verbatim>\<open>switch\<close> to the end), for a resolved token.
\<close>

definition issue ::
  "env \<Rightarrow> RegisterParams \<Rightarrow> string \<Rightarrow> (error + Client) \<times> world \<Rightarrow> (error + Identity) \<times> world" where
  "issue env params tok resolved =
     (case resolved of
        (Inl err, w1) \<Rightarrow> (Inl (Wrap err), w1)
      | (Inr client, w1) \<Rightarrow>
          (case RegisterUsingToken_op env client
                  \<lparr>rut_Token = tok,
                   rut_HostID = HostUUID (ID params),
                   rut_NodeName = NodeName (ID params),
                   rut_Role = Role (ID params),
                   rut_AdditionalPrincipals = AdditionalPrincipals params,
                   rut_PublicTLSKey = PublicTLSKey params,
                   rut_PublicSSHKey = PublicSSHKey params\<rparr> w1 of
             (Inl err, w2) \<Rightarrow> (Inl (Wrap err), Close client w2)
           | (Inr keys, w2) \<Rightarrow>
               (ReadIdentityFromKeyPair env (PrivateKey params)
                  (Cert keys) (TLSCert keys) (TLSCACerts keys),
                Close client w2)))"

text \<open>
  Section 4.8 of the specification read literally: local issuance assembles the
  identity "identically to the network path", from the returned certificates and a
  private key the caller holds.
\<close>

definition LocalRegister_as_specified ::
  "env \<Rightarrow> IdentityID \<Rightarrow> AuthServer \<Rightarrow> string list \<Rightarrow> bytes \<Rightarrow> world
     \<Rightarrow> (error + Identity) \<times> world" where
  "LocalRegister_as_specified env ident authServer additionalPrincipals callerKey w =
     (case AuthServer_GenerateServerKeys_op authServer
             \<lparr>gsk_HostID = HostUUID ident,
              gsk_NodeName = NodeName ident,
              gsk_Roles = [Role ident],
              gsk_AdditionalPrincipals = additionalPrincipals,
              gsk_PublicTLSKey = [],
              gsk_PublicSSHKey = []\<rparr> w of
        (Inl err, w1) \<Rightarrow> (Inl (Wrap err), w1)
      | (Inr keys, w1) \<Rightarrow>
          (ReadIdentityFromKeyPair env callerKey (Cert keys) (TLSCert keys)
             (TLSCACerts keys), w1))"

section \<open>A fake authority for concrete runs\<close>

text \<open>
  The test double of the specification's scenarios: an authority whose CA is the
  certificate \<open>ca\<close>, whose fingerprint is \<open>sha256:\<close> followed by the certificate's
  name, which issues \<open>bundle_B1\<close> for the token \<open>t1\<close> and rejects any other token.
  Files: \<open>/etc/token\<close> holds the token with a newline, \<open>/etc/ca.pem\<close> the CA
  \<open>PEM-AAA\<close>. Identity assembly stores its four arguments. \<open>HostID\<close> is the part
  of the host UUID before the first dot, and fails when there is no dot.
\<close>

definition bundle_B1 :: PackedKeys where
  "bundle_B1 = \<lparr>Key = ''authority-key'', Cert = ''ssh-cert-B1'',
                 TLSCert = ''tls-cert-B1'', TLSCACerts = [''PEM-AAA'']\<rparr>"

definition fake_env :: "bytes \<Rightarrow> env" where
  "fake_env ca =
     \<lparr>ReadFile = (\<lambda>path. if path = ''/etc/token'' then Inr (''mytoken'' @ [CHR 0x0A])
                          else Inl (External ''no such file'')),
      ReadPath = (\<lambda>path. if path = ''/etc/ca.pem'' then Inr ''PEM-AAA''
                          else Inl (External ''no such file'')),
      TLSConfig = (\<lambda>suites. \<lparr>tls_CipherSuites = suites, InsecureSkipVerify = False,
                               RootCAs = None\<rparr>),
      ParseCertificatePEM =
        (\<lambda>pem. if take 4 pem = ''PEM-''
                then Inr \<lparr>Raw = pem, SubjectCommonName = ''cluster-'' @ drop 4 pem\<rparr>
                else Inl (External ''malformed certificate'')),
      CheckSKPI =
        (\<lambda>pin cert. if pin = ''sha256:'' @ drop 4 (Raw cert) then None
                      else Some (BadParameter ''certificate pin does not match'')),
      NewTLSClient = (\<lambda>tr servers cfg. None),
      GetLocalCA = (\<lambda>tr client. Inr \<lparr>TLSCA = ca\<rparr>),
      RegisterUsingToken =
        (\<lambda>tr client req. if rut_Token req = ''t1'' then Inr bundle_B1
                           else Inl (External ''token rejected'')),
      GenerateServerKeys = (\<lambda>tr client req. Inr bundle_B1),
      ReadIdentityFromKeyPair =
        (\<lambda>key cert tlsCert caCerts.
           Inr \<lparr>KeyBytes = key, CertBytes = cert, TLSCertBytes = tlsCert,
                TLSCACertsBytes = caCerts\<rparr>),
      HostID =
        (\<lambda>ident. if CHR ''.'' \<in> set (HostUUID ident)
                   then Inr (takeWhile (\<lambda>c. c \<noteq> CHR ''.'') (HostUUID ident))
                   else Inl (BadParameter ''expected 2 parts in host UUID''))\<rparr>"

definition fake_auth :: AuthServer where
  "fake_auth = \<lparr>auth_GenerateServerKeys = (\<lambda>tr req. Inr bundle_B1)\<rparr>"

definition node_id :: IdentityID where
  "node_id = \<lparr>HostUUID = ''host1.cluster-AAA'', NodeName = ''node1'', Role = ''Node''\<rparr>"

text \<open>
  The scenario's parameters: pin \<open>sha256:AAA\<close>, token \<open>t1\<close>, neither the insecure
  flag nor a CA path.
\<close>

definition pin_params :: RegisterParams where
  "pin_params =
     \<lparr>DataDir = ''/var/lib/teleport'', Token = ''t1'', ID = node_id,
      Servers = [''auth.example.com:3025''], AdditionalPrincipals = [],
      PrivateKey = ''private-key-K'', PublicTLSKey = ''public-tls-K'',
      PublicSSHKey = ''public-ssh-K'', CipherSuites = [],
      CAPath = [], CAPin = ''sha256:AAA'', InsecureSkipCAVerification = False\<rparr>"

definition world0 :: world where
  "world0 = \<lparr>trace = [], next_client = 0\<rparr>"

definition old_client :: Client where
  "old_client =
     \<lparr>client_id = 0, client_servers = [''auth.example.com:3025''],
      client_tls = \<lparr>tls_CipherSuites = [], InsecureSkipVerify = False, RootCAs = None\<rparr>\<rparr>"

definition rotate_params :: ReRegisterParams where
  "rotate_params =
     \<lparr>re_Client = old_client, re_ID = node_id, re_AdditionalPrincipals = [],
      re_PrivateKey = ''private-key-K2'', re_PublicTLSKey = ''public-tls-K2'',
      re_PublicSSHKey = ''public-ssh-K2''\<rparr>"

subsection \<open>Named parts of the source\<close>

text \<open>
  Expressions of \<^verbatim>\<open>Register\<close> and \<^verbatim>\<open>pinRegisterClient\<close> that the properties
  speak about: the request \<^verbatim>\<open>Register\<close> sends, the configuration and the client of
  the first (unverified) connection, the configuration that trusts one certificate, and
  the log line of the pin strategy.
\<close>

definition register_request :: "RegisterParams \<Rightarrow> string \<Rightarrow> RegisterUsingTokenRequest" where
  "register_request params tok =
     \<lparr>rut_Token = tok,
      rut_HostID = HostUUID (ID params),
      rut_NodeName = NodeName (ID params),
      rut_Role = Role (ID params),
      rut_AdditionalPrincipals = AdditionalPrincipals params,
      rut_PublicTLSKey = PublicTLSKey params,
      rut_PublicSSHKey = PublicSSHKey params\<rparr>"

definition phase1_config :: "env \<Rightarrow> RegisterParams \<Rightarrow> tls_Config" where
  "phase1_config env params = (TLSConfig env (CipherSuites params))\<lparr>InsecureSkipVerify := True\<rparr>"

definition phase1_client :: "env \<Rightarrow> RegisterParams \<Rightarrow> world \<Rightarrow> Client" where
  "phase1_client env params w =
     \<lparr>client_id = next_client w, client_servers = Servers params,
      client_tls = phase1_config env params\<rparr>"

definition trusting_config :: "env \<Rightarrow> RegisterParams \<Rightarrow> Certificate \<Rightarrow> tls_Config" where
  "trusting_config env params cert =
     (TLSConfig env (CipherSuites params))\<lparr>RootCAs := Some [cert]\<rparr>"

definition pin_message :: "Certificate \<Rightarrow> string" where
  "pin_message tlsCA = ''Joining remote cluster '' @ SubjectCommonName tlsCA @ '' with CA pin.''"

subsection \<open>Values of the scenario runs\<close>

text \<open>
  The clients, certificates and request that the runs against the fake authority
  produce, for the parameters \<open>pin_params\<close> in the empty world.
\<close>

definition cert_AAA :: Certificate where
  "cert_AAA = \<lparr>Raw = ''PEM-AAA'', SubjectCommonName = ''cluster-AAA''\<rparr>"

definition cert_BBB :: Certificate where
  "cert_BBB = \<lparr>Raw = ''PEM-BBB'', SubjectCommonName = ''cluster-BBB''\<rparr>"

definition scenario_client1 :: Client where
  "scenario_client1 =
     \<lparr>client_id = 0, client_servers = [''auth.example.com:3025''],
      client_tls = \<lparr>tls_CipherSuites = [], InsecureSkipVerify = True, RootCAs = None\<rparr>\<rparr>"

definition scenario_client2 :: Client where
  "scenario_client2 =
     \<lparr>client_id = 1, client_servers = [''auth.example.com:3025''],
      client_tls = \<lparr>tls_CipherSuites = [], InsecureSkipVerify = False,
                     RootCAs = Some [cert_AAA]\<rparr>\<rparr>"

definition scenario_request :: "string \<Rightarrow> RegisterUsingTokenRequest" where
  "scenario_request tok =
     \<lparr>rut_Token = tok, rut_HostID = ''host1.cluster-AAA'', rut_NodeName = ''node1'',
      rut_Role = ''Node'', rut_AdditionalPrincipals = [],
      rut_PublicTLSKey = ''public-tls-K'', rut_PublicSSHKey = ''public-ssh-K''\<rparr>"

section \<open>Properties of token resolution\<close>

subsection \<open>What TrimSpace removes\<close>

lemma white_space_rune: "p \<in> set space_runes \<Longrightarrow> white_space p"
  using white_space.rune [OF _ white_space.empty] by simp

lemma white_space_append: "white_space a \<Longrightarrow> white_space b \<Longrightarrow> white_space (a @ b)"
  by (induction a rule: white_space.induct) (auto intro: white_space.intros)

lemma TrimLeftSpace_splits: "\<exists>l. s = l @ TrimLeftSpace s \<and> white_space l"
proof (induction s rule: TrimLeftSpace.induct)
  case (1 s)
  show ?case
  proof (cases "find (\<lambda>p. prefix p s) space_runes")
    case None
    then have "TrimLeftSpace s = s" by (subst TrimLeftSpace.simps) simp
    then show ?thesis by (auto intro: white_space.empty)
  next
    case (Some p)
    then have p: "p \<in> set space_runes" and ps: "prefix p s"
      by (auto simp: find_Some_iff)
    from 1 [OF Some] obtain l where l: "drop (length p) s = l @ TrimLeftSpace (drop (length p) s)"
      and wl: "white_space l" by blast
    from ps have "s = p @ drop (length p) s" by (auto simp: prefix_def)
    with l have "s = (p @ l) @ TrimLeftSpace (drop (length p) s)" by (metis append_assoc)
    moreover have "TrimLeftSpace s = TrimLeftSpace (drop (length p) s)"
      using Some by (subst TrimLeftSpace.simps) simp
    moreover have "white_space (p @ l)" using p wl by (rule white_space.rune)
    ultimately show ?thesis by metis
  qed
qed

lemma TrimRightSpace_splits: "\<exists>r. s = TrimRightSpace s @ r \<and> white_space r"
proof (induction s rule: TrimRightSpace.induct)
  case (1 s)
  show ?case
  proof (cases "find (\<lambda>p. suffix p s) space_runes")
    case None
    then have "TrimRightSpace s = s" by (subst TrimRightSpace.simps) simp
    then show ?thesis by (auto intro: white_space.empty)
  next
    case (Some p)
    then have p: "p \<in> set space_runes" and ps: "suffix p s"
      by (auto simp: find_Some_iff)
    let ?t = "take (length s - length p) s"
    from 1 [OF Some] obtain r where r: "?t = TrimRightSpace ?t @ r"
      and wr: "white_space r" by blast
    from ps have "s = ?t @ p" by (auto simp: suffix_def)
    with r have "s = TrimRightSpace ?t @ (r @ p)" by (metis append_assoc)
    moreover have "TrimRightSpace s = TrimRightSpace ?t"
      using Some by (subst TrimRightSpace.simps) simp
    moreover have "white_space (r @ p)" using p wr by (simp add: white_space_append white_space_rune)
    ultimately show ?thesis by metis
  qed
qed

lemma TrimLeftSpace_no_leading: "find (\<lambda>p. prefix p (TrimLeftSpace s)) space_runes = None"
proof (induction s rule: TrimLeftSpace.induct)
  case (1 s)
  then show ?case
    by (subst TrimLeftSpace.simps) (simp split: option.splits)
qed

lemma TrimRightSpace_no_trailing: "find (\<lambda>p. suffix p (TrimRightSpace s)) space_runes = None"
proof (induction s rule: TrimRightSpace.induct)
  case (1 s)
  then show ?case
    by (subst TrimRightSpace.simps) (simp split: option.splits)
qed

lemma TrimRightSpace_keeps_no_leading:
  assumes "find (\<lambda>p. prefix p s) space_runes = None"
  shows "find (\<lambda>p. prefix p (TrimRightSpace s)) space_runes = None"
proof -
  obtain r where "s = TrimRightSpace s @ r" using TrimRightSpace_splits by blast
  then have "prefix (TrimRightSpace s) s" by (metis prefixI)
  then have "\<And>p. prefix p (TrimRightSpace s) \<Longrightarrow> prefix p s" by (rule prefix_order.trans[rotated])
  with assms show ?thesis by (auto simp: find_None_iff)
qed

lemma TrimSpace_trimmed: "trimmed (TrimSpace s)"
  by (simp add: trimmed_def TrimSpace_def TrimRightSpace_no_trailing
      TrimRightSpace_keeps_no_leading TrimLeftSpace_no_leading)

lemma TrimSpace_splits: "\<exists>l r. s = l @ TrimSpace s @ r \<and> white_space l \<and> white_space r"
proof -
  obtain l where l: "s = l @ TrimLeftSpace s" "white_space l"
    using TrimLeftSpace_splits by blast
  obtain r where r: "TrimLeftSpace s = TrimSpace s @ r" "white_space r"
    unfolding TrimSpace_def using TrimRightSpace_splits by blast
  from l r have "s = l @ TrimSpace s @ r" by simp
  with l r show ?thesis by blast
qed

subsection \<open>readToken\<close>

text \<open>
  Claim C8. A token that does not begin with the path marker \<open>/\<close> is returned
  unchanged. A token that begins with it names a file; when the file is read, readToken
  returns its contents trimmed of surrounding white space: the contents are the result
  between two runs of white-space runes, and the result neither starts nor ends with
  one. The witness runs the two examples: the literal \<open>abc123\<close>, and a file holding
  \<open>mytoken\<close> and a newline.
\<close>

theorem readToken_resolves:
  "(\<not> HasPrefix token ''/'' \<longrightarrow> readToken env token = Inr token) \<and>
   (HasPrefix token ''/'' \<and> ReadFile env token = Inr out \<longrightarrow>
      readToken env token = Inr (TrimSpace out) \<and> trimmed (TrimSpace out) \<and>
      (\<exists>l r. out = l @ TrimSpace out @ r \<and> white_space l \<and> white_space r))"
  using TrimSpace_trimmed [of out] TrimSpace_splits [of out]
  by (simp add: readToken_def)

theorem readToken_resolves_witness:
  "readToken (fake_env ''PEM-AAA'') ''abc123'' = Inr ''abc123'' \<and>
   readToken (fake_env ''PEM-AAA'') ''/etc/token'' = Inr ''mytoken''"
proof -
  have lit: "\<not> HasPrefix ''abc123'' ''/''"
    by (simp add: HasPrefix_def)
  have path: "HasPrefix ''/etc/token'' ''/'' \<and>
      ReadFile (fake_env ''PEM-AAA'') ''/etc/token'' = Inr (''mytoken'' @ [CHR 0x0A])"
    by (simp add: HasPrefix_def fake_env_def)
  have trim: "TrimSpace (''mytoken'' @ [CHR 0x0A]) = ''mytoken''"
    by (simp add: TrimSpace_def TrimLeftSpace.simps TrimRightSpace.simps space_runes_def
        suffix_to_prefix)
  from lit path trim
    readToken_resolves [of "''abc123''" "fake_env ''PEM-AAA''"]
    readToken_resolves [of "''/etc/token''" "fake_env ''PEM-AAA''" "''mytoken'' @ [CHR 0x0A]"]
  show ?thesis by simp
qed

section \<open>Facts about traces\<close>

lemma AddCert_NewCertPool [simp]: "AddCert NewCertPool cert = [cert]"
  by (simp add: AddCert_def NewCertPool_def)

lemma trace_emit [simp]: "trace (emit e w) = trace w @ [e]"
  by (simp add: emit_def)

lemma next_client_emit [simp]: "next_client (emit e w) = next_client w"
  by (simp add: emit_def)

lemma new_events_append [simp]: "trace w' = trace w @ evs \<Longrightarrow> new_events w w' = evs"
  by (simp add: new_events_def)

lemma trace_world0 [simp]: "trace world0 = []"
  by (simp add: world0_def)

lemmas op_defs = NewTLSClient_op_def GetLocalCA_op_def RegisterUsingToken_op_def
  GenerateServerKeys_op_def AuthServer_GenerateServerKeys_op_def Close_def Let_def

lemmas resolver_defs = insecureRegisterClient_def pinRegisterClient_def pathRegisterClient_def

section \<open>Register is strategy selection followed by issuance\<close>

lemma readToken_total: "\<exists>tok. readToken env token = Inr tok"
  by (simp add: readToken_def split: sum.splits)

lemma Register_issue:
  assumes "readToken env (Token params) = Inr tok"
  shows "Register env params w =
     (case select_strategy params of
        None \<Rightarrow> (Inl (BadParameter no_strategy_message), w)
      | Some s \<Rightarrow> issue env params tok (strategy_client s env params w))"
proof (cases "select_strategy params")
  case None
  with assms show ?thesis
    by (simp add: Register_def select_strategy_def split: if_splits)
next
  case (Some s)
  obtain r w1 where res: "strategy_client s env params w = (r, w1)"
    by (cases "strategy_client s env params w")
  with assms Some show ?thesis
    by (cases s; cases r) (simp_all add: Register_def select_strategy_def issue_def split: if_splits)
qed

lemma issue_Inl: "issue env params tok (Inl err, w1) = (Inl (Wrap err), w1)"
  by (simp add: issue_def)

lemma issue_Inr:
  "issue env params tok (Inr client, w1) =
     ((case RegisterUsingToken env (trace w1) client (register_request params tok) of
         Inl err \<Rightarrow> Inl (Wrap err)
       | Inr keys \<Rightarrow> ReadIdentityFromKeyPair env (PrivateKey params)
            (Cert keys) (TLSCert keys) (TLSCACerts keys)),
      w1\<lparr>trace := trace w1 @
        [EvRegisterUsingToken client (register_request params tok)
           (RegisterUsingToken env (trace w1) client (register_request params tok)),
         EvClose client]\<rparr>)"
  by (simp add: issue_def op_defs register_request_def emit_def split: sum.splits)

text \<open>
  Claim C2. For every RegisterParams, Register activates exactly the strategy that
  \<open>select_strategy\<close> names (insecure flag first, else non-empty CA pin, else non-empty
  CA path): its outcome is the issuance step applied to that strategy's resolver and to
  the resolved token. When none of the three is set it returns the BadParameter
  configuration error and leaves the world as it found it: no client is constructed and
  no operation of any client is recorded.
\<close>

theorem Register_selects_by_precedence:
  "\<exists>tok. readToken env (Token params) = Inr tok \<and>
     Register env params w =
       (case select_strategy params of
          None \<Rightarrow> (Inl (BadParameter no_strategy_message), w)
        | Some s \<Rightarrow> issue env params tok (strategy_client s env params w)) \<and>
     (select_strategy params = None \<longrightarrow>
        snd (Register env params w) = w \<and>
        new_events w (snd (Register env params w)) = [])"
proof -
  obtain tok where tok: "readToken env (Token params) = Inr tok"
    using readToken_total by blast
  from Register_issue [OF tok, of w] tok show ?thesis
    by (auto simp: new_events_def)
qed

theorem Register_selects_by_precedence_witness:
  "Register (fake_env ''PEM-AAA'') (pin_params\<lparr>CAPin := []\<rparr>) world0 =
     (Inl (BadParameter no_strategy_message), world0) \<and>
   Register (fake_env ''PEM-AAA'') (pin_params\<lparr>CAPath := ''/etc/ca.pem''\<rparr>) world0 =
     issue (fake_env ''PEM-AAA'') (pin_params\<lparr>CAPath := ''/etc/ca.pem''\<rparr>) ''t1''
       (pinRegisterClient (fake_env ''PEM-AAA'') (pin_params\<lparr>CAPath := ''/etc/ca.pem''\<rparr>)
          world0)"
proof -
  have none: "select_strategy (pin_params\<lparr>CAPin := []\<rparr>) = None"
    by (simp add: select_strategy_def pin_params_def)
  have pin: "select_strategy (pin_params\<lparr>CAPath := ''/etc/ca.pem''\<rparr>) = Some Pin"
    by (simp add: select_strategy_def pin_params_def)
  have tok: "readToken (fake_env ''PEM-AAA'') (Token (pin_params\<lparr>CAPath := ''/etc/ca.pem''\<rparr>)) =
      Inr ''t1''"
    by (simp add: readToken_def HasPrefix_def pin_params_def)
  from Register_selects_by_precedence
         [of "fake_env ''PEM-AAA''" "pin_params\<lparr>CAPin := []\<rparr>" world0]
       Register_selects_by_precedence
         [of "fake_env ''PEM-AAA''" "pin_params\<lparr>CAPath := ''/etc/ca.pem''\<rparr>" world0]
       none pin tok
  show ?thesis by auto
qed

section \<open>What the trust anchor resolvers record\<close>

lemma resolver_clients:
  "\<exists>evs. trace (snd (strategy_client s env params w)) = trace w @ evs \<and>
     distinct (opened_clients evs) \<and> distinct (closed_clients evs) \<and>
     (case fst (strategy_client s env params w) of
        Inl err \<Rightarrow> set (closed_clients evs) = set (opened_clients evs)
      | Inr client \<Rightarrow> client \<notin> set (closed_clients evs) \<and>
          set (opened_clients evs) = insert client (set (closed_clients evs)))"
  by (cases s) (simp_all add: resolver_defs op_defs opened_clients_def closed_clients_def
      split: sum.splits option.splits)

lemma resolver_trace:
  "\<exists>evs. trace (snd (strategy_client s env params w)) = trace w @ evs"
  using resolver_clients [of s env params w] by blast

lemma Register_trace:
  assumes sel: "select_strategy params = Some s"
    and evs: "trace (snd (strategy_client s env params w)) = trace w @ evs"
  shows "\<exists>tok. readToken env (Token params) = Inr tok \<and>
     (case fst (strategy_client s env params w) of
        Inl err \<Rightarrow>
          fst (Register env params w) = Inl (Wrap err) \<and>
          new_events w (snd (Register env params w)) = evs
      | Inr client \<Rightarrow>
          (\<exists>r. new_events w (snd (Register env params w)) =
                 evs @ [EvRegisterUsingToken client (register_request params tok) r,
                        EvClose client] \<and>
               fst (Register env params w) =
                 (case r of
                    Inl err \<Rightarrow> Inl (Wrap err)
                  | Inr keys \<Rightarrow> ReadIdentityFromKeyPair env (PrivateKey params)
                      (Cert keys) (TLSCert keys) (TLSCACerts keys))))"
proof -
  obtain tok where tok: "readToken env (Token params) = Inr tok"
    using readToken_total by blast
  obtain r w1 where res: "strategy_client s env params w = (r, w1)"
    by (cases "strategy_client s env params w")
  have reg: "Register env params w = issue env params tok (r, w1)"
    using Register_issue [OF tok] sel res by simp
  show ?thesis
  proof (cases r)
    case (Inl err)
    with reg evs res tok show ?thesis
      by (simp add: issue_Inl)
  next
    case (Inr client)
    with reg evs res tok show ?thesis
      by (simp add: issue_Inr)
  qed
qed

lemma Register_after_resolver:
  assumes sel: "select_strategy params = Some s"
  shows "\<exists>tok. readToken env (Token params) = Inr tok \<and>
     (case fst (strategy_client s env params w) of
        Inl err \<Rightarrow>
          fst (Register env params w) = Inl (Wrap err) \<and>
          new_events w (snd (Register env params w)) =
            new_events w (snd (strategy_client s env params w))
      | Inr client \<Rightarrow>
          (\<exists>r. new_events w (snd (Register env params w)) =
                 new_events w (snd (strategy_client s env params w)) @
                 [EvRegisterUsingToken client (register_request params tok) r,
                  EvClose client] \<and>
               fst (Register env params w) =
                 (case r of
                    Inl err \<Rightarrow> Inl (Wrap err)
                  | Inr keys \<Rightarrow> ReadIdentityFromKeyPair env (PrivateKey params)
                      (Cert keys) (TLSCert keys) (TLSCACerts keys))))"
proof -
  obtain evs where evs: "trace (snd (strategy_client s env params w)) = trace w @ evs"
    using resolver_trace by blast
  then have ne: "new_events w (snd (strategy_client s env params w)) = evs"
    by (rule new_events_append)
  show ?thesis
    unfolding ne by (rule Register_trace [OF sel evs])
qed

lemma resolver_no_issuance:
  "filter is_RegisterUsingToken (new_events w (snd (strategy_client s env params w))) = []"
  by (cases s) (simp_all add: resolver_defs op_defs new_events_def split: sum.splits option.splits)

lemma resolver_never_issues [simp]:
  "EvRegisterUsingToken client req r \<notin>
     set (new_events w (snd (strategy_client s env params w)))"
proof
  assume "EvRegisterUsingToken client req r \<in>
     set (new_events w (snd (strategy_client s env params w)))"
  then have "EvRegisterUsingToken client req r \<in>
     set (filter is_RegisterUsingToken (new_events w (snd (strategy_client s env params w))))"
    by simp
  then show False by (simp add: resolver_no_issuance)
qed

lemma Register_requests:
  assumes "EvRegisterUsingToken client req r \<in> set (new_events w (snd (Register env params w)))"
  shows "\<exists>tok. readToken env (Token params) = Inr tok \<and> req = register_request params tok"
proof (cases "select_strategy params")
  case None
  obtain tok where "readToken env (Token params) = Inr tok"
    using readToken_total by blast
  from Register_issue [OF this, of w] None
  have "new_events w (snd (Register env params w)) = []"
    by (simp add: new_events_def)
  with assms show ?thesis by simp
next
  case (Some s)
  let ?res = "strategy_client s env params w"
  note reg = Register_after_resolver [OF Some, of env w]
  show ?thesis
  proof (cases "fst ?res")
    case (Inl err)
    with reg assms show ?thesis by auto
  next
    case (Inr c)
    with reg assms show ?thesis by auto
  qed
qed

subsection \<open>The six outcomes of the pin strategy\<close>

lemma pin_outcomes:
  "(\<exists>e.
      new_events w (snd (pinRegisterClient env params w)) =
          [EvNewTLSClient (Servers params) (phase1_config env params) (Inl e)] \<and>
      fst (pinRegisterClient env params w) = Inl (Wrap e)) \<or>
   (\<exists>e.
      new_events w (snd (pinRegisterClient env params w)) =
          [EvNewTLSClient (Servers params) (phase1_config env params)
             (Inr (phase1_client env params w)),
           EvGetLocalCA (phase1_client env params w) (Inl e),
           EvClose (phase1_client env params w)] \<and>
      fst (pinRegisterClient env params w) = Inl (Wrap e)) \<or>
   (\<exists>ca e.
      new_events w (snd (pinRegisterClient env params w)) =
          [EvNewTLSClient (Servers params) (phase1_config env params)
             (Inr (phase1_client env params w)),
           EvGetLocalCA (phase1_client env params w) (Inr ca),
           EvClose (phase1_client env params w)] \<and>
      ParseCertificatePEM env (TLSCA ca) = Inl e \<and>
      fst (pinRegisterClient env params w) = Inl (Wrap e)) \<or>
   (\<exists>ca tlsCA e.
      new_events w (snd (pinRegisterClient env params w)) =
          [EvNewTLSClient (Servers params) (phase1_config env params)
             (Inr (phase1_client env params w)),
           EvGetLocalCA (phase1_client env params w) (Inr ca),
           EvClose (phase1_client env params w)] \<and>
      ParseCertificatePEM env (TLSCA ca) = Inr tlsCA \<and>
      CheckSKPI env (CAPin params) tlsCA = Some e \<and>
      fst (pinRegisterClient env params w) = Inl (Wrap e)) \<or>
   (\<exists>ca tlsCA e.
      new_events w (snd (pinRegisterClient env params w)) =
          [EvNewTLSClient (Servers params) (phase1_config env params)
             (Inr (phase1_client env params w)),
           EvGetLocalCA (phase1_client env params w) (Inr ca),
           EvLog (pin_message tlsCA),
           EvNewTLSClient (Servers params) (trusting_config env params tlsCA) (Inl e),
           EvClose (phase1_client env params w)] \<and>
      ParseCertificatePEM env (TLSCA ca) = Inr tlsCA \<and>
      CheckSKPI env (CAPin params) tlsCA = None \<and>
      fst (pinRegisterClient env params w) = Inl (Wrap e)) \<or>
   (\<exists>ca tlsCA c2.
      new_events w (snd (pinRegisterClient env params w)) =
          [EvNewTLSClient (Servers params) (phase1_config env params)
             (Inr (phase1_client env params w)),
           EvGetLocalCA (phase1_client env params w) (Inr ca),
           EvLog (pin_message tlsCA),
           EvNewTLSClient (Servers params) (trusting_config env params tlsCA) (Inr c2),
           EvClose (phase1_client env params w)] \<and>
      ParseCertificatePEM env (TLSCA ca) = Inr tlsCA \<and>
      CheckSKPI env (CAPin params) tlsCA = None \<and>
      fst (pinRegisterClient env params w) = Inr c2 \<and>
      c2 = \<lparr>client_id = Suc (next_client w), client_servers = Servers params,
             client_tls = trusting_config env params tlsCA\<rparr>)"
  by (simp add: pinRegisterClient_def op_defs new_events_def phase1_config_def
      phase1_client_def trusting_config_def pin_message_def
      split: sum.splits option.splits)

lemma pin_cases [case_names dial1_failed fetch_failed parse_failed mismatch dial2_failed connected]:
  obtains
    (dial1_failed) e where
      "new_events w (snd (pinRegisterClient env params w)) =
         [EvNewTLSClient (Servers params) (phase1_config env params) (Inl e)]"
      "fst (pinRegisterClient env params w) = Inl (Wrap e)"
  | (fetch_failed) e where
      "new_events w (snd (pinRegisterClient env params w)) =
         [EvNewTLSClient (Servers params) (phase1_config env params)
            (Inr (phase1_client env params w)),
          EvGetLocalCA (phase1_client env params w) (Inl e),
          EvClose (phase1_client env params w)]"
      "fst (pinRegisterClient env params w) = Inl (Wrap e)"
  | (parse_failed) ca e where
      "new_events w (snd (pinRegisterClient env params w)) =
         [EvNewTLSClient (Servers params) (phase1_config env params)
            (Inr (phase1_client env params w)),
          EvGetLocalCA (phase1_client env params w) (Inr ca),
          EvClose (phase1_client env params w)]"
      "ParseCertificatePEM env (TLSCA ca) = Inl e"
      "fst (pinRegisterClient env params w) = Inl (Wrap e)"
  | (mismatch) ca tlsCA e where
      "new_events w (snd (pinRegisterClient env params w)) =
         [EvNewTLSClient (Servers params) (phase1_config env params)
            (Inr (phase1_client env params w)),
          EvGetLocalCA (phase1_client env params w) (Inr ca),
          EvClose (phase1_client env params w)]"
      "ParseCertificatePEM env (TLSCA ca) = Inr tlsCA"
      "CheckSKPI env (CAPin params) tlsCA = Some e"
      "fst (pinRegisterClient env params w) = Inl (Wrap e)"
  | (dial2_failed) ca tlsCA e where
      "new_events w (snd (pinRegisterClient env params w)) =
         [EvNewTLSClient (Servers params) (phase1_config env params)
            (Inr (phase1_client env params w)),
          EvGetLocalCA (phase1_client env params w) (Inr ca),
          EvLog (pin_message tlsCA),
          EvNewTLSClient (Servers params) (trusting_config env params tlsCA) (Inl e),
          EvClose (phase1_client env params w)]"
      "ParseCertificatePEM env (TLSCA ca) = Inr tlsCA"
      "CheckSKPI env (CAPin params) tlsCA = None"
      "fst (pinRegisterClient env params w) = Inl (Wrap e)"
  | (connected) ca tlsCA c2 where
      "new_events w (snd (pinRegisterClient env params w)) =
         [EvNewTLSClient (Servers params) (phase1_config env params)
            (Inr (phase1_client env params w)),
          EvGetLocalCA (phase1_client env params w) (Inr ca),
          EvLog (pin_message tlsCA),
          EvNewTLSClient (Servers params) (trusting_config env params tlsCA) (Inr c2),
          EvClose (phase1_client env params w)]"
      "ParseCertificatePEM env (TLSCA ca) = Inr tlsCA"
      "CheckSKPI env (CAPin params) tlsCA = None"
      "fst (pinRegisterClient env params w) = Inr c2"
      "c2 = \<lparr>client_id = Suc (next_client w), client_servers = Servers params,
              client_tls = trusting_config env params tlsCA\<rparr>"
proof -
  from pin_outcomes [of w env params] show thesis
    by (elim disjE exE conjE)
      (blast intro: dial1_failed fetch_failed parse_failed mismatch dial2_failed connected)+
qed

lemma pin_connected_one_fetch:
  assumes "fst (pinRegisterClient env params w) = Inr client"
  shows "length (filter is_GetLocalCA (new_events w (snd (pinRegisterClient env params w)))) = 1"
  using assms by (cases rule: pin_cases [of w env params]) simp_all

section \<open>Scenario runs against the fake authority\<close>

lemmas run_defs = Register_def readToken_def HasPrefix_def resolver_defs op_defs emit_def
  fake_env_def pin_params_def world0_def node_id_def bundle_B1_def
  scenario_client1_def scenario_client2_def scenario_request_def cert_AAA_def cert_BBB_def

lemma scenario_pin_match:
  "Register (fake_env ''PEM-AAA'') pin_params world0 =
     (Inr \<lparr>KeyBytes = ''private-key-K'', CertBytes = ''ssh-cert-B1'',
           TLSCertBytes = ''tls-cert-B1'', TLSCACertsBytes = [''PEM-AAA'']\<rparr>,
      \<lparr>trace =
         [EvNewTLSClient [''auth.example.com:3025''] (client_tls scenario_client1)
            (Inr scenario_client1),
          EvGetLocalCA scenario_client1 (Inr \<lparr>TLSCA = ''PEM-AAA''\<rparr>),
          EvLog ''Joining remote cluster cluster-AAA with CA pin.'',
          EvNewTLSClient [''auth.example.com:3025''] (client_tls scenario_client2)
            (Inr scenario_client2),
          EvClose scenario_client1,
          EvRegisterUsingToken scenario_client2 (scenario_request ''t1'') (Inr bundle_B1),
          EvClose scenario_client2],
       next_client = 2\<rparr>)"
  by (simp add: run_defs)

lemma scenario_pin_mismatch:
  "Register (fake_env ''PEM-BBB'') pin_params world0 =
     (Inl (Wrap (Wrap (BadParameter ''certificate pin does not match''))),
      \<lparr>trace =
         [EvNewTLSClient [''auth.example.com:3025''] (client_tls scenario_client1)
            (Inr scenario_client1),
          EvGetLocalCA scenario_client1 (Inr \<lparr>TLSCA = ''PEM-BBB''\<rparr>),
          EvClose scenario_client1],
       next_client = 1\<rparr>)"
  by (simp add: run_defs)

lemma scenario_missing_token_file:
  "Register (fake_env ''PEM-AAA'') (pin_params\<lparr>Token := []\<rparr>) world0 =
     (Inl (Wrap (External ''token rejected'')),
      \<lparr>trace =
         [EvNewTLSClient [''auth.example.com:3025''] (client_tls scenario_client1)
            (Inr scenario_client1),
          EvGetLocalCA scenario_client1 (Inr \<lparr>TLSCA = ''PEM-AAA''\<rparr>),
          EvLog ''Joining remote cluster cluster-AAA with CA pin.'',
          EvNewTLSClient [''auth.example.com:3025''] (client_tls scenario_client2)
            (Inr scenario_client2),
          EvClose scenario_client1,
          EvRegisterUsingToken scenario_client2 (scenario_request [])
            (Inl (External ''token rejected'')),
          EvClose scenario_client2],
       next_client = 2\<rparr>)"
  by (simp add: run_defs)

lemma fake_parse_AAA: "ParseCertificatePEM (fake_env ca) ''PEM-AAA'' = Inr cert_AAA"
  by (simp add: fake_env_def cert_AAA_def)

lemma fake_parse_BBB: "ParseCertificatePEM (fake_env ca) ''PEM-BBB'' = Inr cert_BBB"
  by (simp add: fake_env_def cert_BBB_def)

section \<open>The pin strategy\<close>

text \<open>
  Claim C1. In a Register call that uses the pin strategy (insecure flag unset, CA pin
  non-empty), if the CA certificate fetched with GetLocalCA over the first, unverified
  connection parses and CheckSKPI rejects it for the supplied pin, then RegisterUsingToken
  is never invoked, Register returns CheckSKPI's error (wrapped once by pinRegisterClient
  and once by Register) and no Identity, and the attempt consists of the one connection,
  the one fetch and the close of that connection.
\<close>

theorem pin_mismatch_no_issuance:
  assumes "\<not> InsecureSkipCAVerification params" and "CAPin params \<noteq> []"
    and fetched: "EvGetLocalCA client (Inr localCA) \<in>
           set (new_events w (snd (Register env params w)))"
    and parsed: "ParseCertificatePEM env (TLSCA localCA) = Inr tlsCA"
    and pin: "CheckSKPI env (CAPin params) tlsCA = Some err"
  shows "fst (Register env params w) = Inl (Wrap (Wrap err)) \<and>
     filter is_RegisterUsingToken (new_events w (snd (Register env params w))) = [] \<and>
     (\<exists>cfg. new_events w (snd (Register env params w)) =
        [EvNewTLSClient (Servers params) cfg (Inr client), EvGetLocalCA client (Inr localCA),
         EvClose client])"
proof -
  have sel: "select_strategy params = Some Pin"
    using assms by (simp add: select_strategy_def)
  note reg = Register_after_resolver [OF sel, of env w]
  show ?thesis
  proof (cases rule: pin_cases [of w env params])
    case (dial1_failed e)
    with reg fetched show ?thesis by simp
  next
    case (fetch_failed e)
    with reg fetched show ?thesis by simp
  next
    case (parse_failed ca e)
    with reg fetched parsed show ?thesis by auto
  next
    case (mismatch ca tlsCA' e)
    with reg fetched parsed pin show ?thesis by auto
  next
    case (dial2_failed ca tlsCA' e)
    with reg fetched parsed pin show ?thesis by auto
  next
    case (connected ca tlsCA' c2)
    with reg fetched parsed pin show ?thesis by auto
  qed
qed

theorem pin_mismatch_no_issuance_witness:
  "fst (Register (fake_env ''PEM-BBB'') pin_params world0) =
     Inl (Wrap (Wrap (BadParameter ''certificate pin does not match''))) \<and>
   filter is_RegisterUsingToken
     (new_events world0 (snd (Register (fake_env ''PEM-BBB'') pin_params world0))) = []"
proof -
  have flag: "\<not> InsecureSkipCAVerification pin_params" and pin: "CAPin pin_params \<noteq> []"
    by (simp_all add: pin_params_def)
  have fetched: "EvGetLocalCA scenario_client1 (Inr \<lparr>TLSCA = ''PEM-BBB''\<rparr>) \<in>
      set (new_events world0 (snd (Register (fake_env ''PEM-BBB'') pin_params world0)))"
    by (simp add: scenario_pin_mismatch new_events_def)
  have parsed: "ParseCertificatePEM (fake_env ''PEM-BBB'') (TLSCA \<lparr>TLSCA = ''PEM-BBB''\<rparr>) =
      Inr cert_BBB"
    by (simp add: fake_parse_BBB)
  have differs: "CheckSKPI (fake_env ''PEM-BBB'') (CAPin pin_params) cert_BBB =
      Some (BadParameter ''certificate pin does not match'')"
    by (simp add: fake_env_def pin_params_def cert_BBB_def)
  from pin_mismatch_no_issuance [OF flag pin fetched parsed differs]
  show ?thesis by blast
qed

text \<open>
  Claim C3. In a pin-strategy Register call in which the fetched CA certificate parses
  and CheckSKPI accepts it for the supplied pin, the second connection is requested with
  a configuration whose RootCAs pool is exactly the one verified certificate. When that
  connection is constructed, its client carries this configuration, differs from the
  first client, and is the client on which RegisterUsingToken is called, after the
  first client has been closed.
\<close>

theorem pin_match_second_connection:
  assumes "\<not> InsecureSkipCAVerification params" and "CAPin params \<noteq> []"
    and fetched: "EvGetLocalCA client1 (Inr localCA) \<in>
           set (new_events w (snd (Register env params w)))"
    and parsed: "ParseCertificatePEM env (TLSCA localCA) = Inr tlsCA"
    and pin: "CheckSKPI env (CAPin params) tlsCA = None"
  shows "\<exists>cfg1 msg cfg2 r2 rest.
     new_events w (snd (Register env params w)) =
       [EvNewTLSClient (Servers params) cfg1 (Inr client1),
        EvGetLocalCA client1 (Inr localCA), EvLog msg,
        EvNewTLSClient (Servers params) cfg2 r2, EvClose client1] @ rest \<and>
     RootCAs cfg2 = Some [tlsCA] \<and>
     (case r2 of
        Inl e \<Rightarrow> rest = [] \<and> fst (Register env params w) = Inl (Wrap (Wrap e))
      | Inr client2 \<Rightarrow>
          client_tls client2 = cfg2 \<and> client2 \<noteq> client1 \<and>
          (\<exists>req r. rest = [EvRegisterUsingToken client2 req r, EvClose client2]))"
proof -
  have sel: "select_strategy params = Some Pin"
    using assms by (simp add: select_strategy_def)
  note reg = Register_after_resolver [OF sel, of env w]
  show ?thesis
  proof (cases rule: pin_cases [of w env params])
    case (dial1_failed e)
    with reg fetched show ?thesis by simp
  next
    case (fetch_failed e)
    with reg fetched show ?thesis by simp
  next
    case (parse_failed ca e)
    with reg fetched parsed show ?thesis by auto
  next
    case (mismatch ca tlsCA' e)
    with reg fetched parsed pin show ?thesis by auto
  next
    case (dial2_failed ca tlsCA' e)
    with reg fetched parsed pin show ?thesis
      by (auto simp: trusting_config_def)
  next
    case (connected ca tlsCA' c2)
    with reg fetched parsed pin show ?thesis
      by (auto simp: trusting_config_def phase1_client_def)
  qed
qed

theorem pin_match_second_connection_witness:
  "\<exists>cfg1 msg cfg2 rest.
     new_events world0 (snd (Register (fake_env ''PEM-AAA'') pin_params world0)) =
       [EvNewTLSClient (Servers pin_params) cfg1 (Inr scenario_client1),
        EvGetLocalCA scenario_client1 (Inr \<lparr>TLSCA = ''PEM-AAA''\<rparr>), EvLog msg,
        EvNewTLSClient (Servers pin_params) cfg2 (Inr scenario_client2),
        EvClose scenario_client1] @ rest \<and>
     RootCAs cfg2 = Some [cert_AAA]"
proof -
  have flag: "\<not> InsecureSkipCAVerification pin_params" and pin: "CAPin pin_params \<noteq> []"
    by (simp_all add: pin_params_def)
  have fetched: "EvGetLocalCA scenario_client1 (Inr \<lparr>TLSCA = ''PEM-AAA''\<rparr>) \<in>
      set (new_events world0 (snd (Register (fake_env ''PEM-AAA'') pin_params world0)))"
    by (simp add: scenario_pin_match new_events_def)
  have parsed: "ParseCertificatePEM (fake_env ''PEM-AAA'') (TLSCA \<lparr>TLSCA = ''PEM-AAA''\<rparr>) =
      Inr cert_AAA"
    by (simp add: fake_parse_AAA)
  have matches: "CheckSKPI (fake_env ''PEM-AAA'') (CAPin pin_params) cert_AAA = None"
    by (simp add: fake_env_def pin_params_def cert_AAA_def)
  from pin_match_second_connection [OF flag pin fetched parsed matches]
  show ?thesis
    by (auto simp: scenario_pin_match new_events_def)
qed

section \<open>The issued identity and what is sent for it\<close>

text \<open>
  Claim C4. Whenever the authority answers the RegisterUsingToken call of a Register run
  with a bundle \<open>B\<close>, the result of Register for private key \<open>K = PrivateKey params\<close>
  is ReadIdentityFromKeyPair applied to \<open>K\<close> and to the SSH certificate, TLS certificate
  and CA chain of \<open>B\<close>: the identity assembled directly from \<open>K\<close> and \<open>B\<close>. The
  run makes exactly one RegisterUsingToken call, and on the pin path exactly one
  GetLocalCA call.
\<close>

theorem Register_identity_from_bundle:
  assumes issued: "EvRegisterUsingToken client req (Inr B) \<in>
            set (new_events w (snd (Register env params w)))"
  shows "fst (Register env params w) =
       ReadIdentityFromKeyPair env (PrivateKey params) (Cert B) (TLSCert B) (TLSCACerts B) \<and>
     length (filter is_RegisterUsingToken (new_events w (snd (Register env params w)))) = 1 \<and>
     (select_strategy params = Some Pin \<longrightarrow>
        length (filter is_GetLocalCA (new_events w (snd (Register env params w)))) = 1)"
proof (cases "select_strategy params")
  case None
  obtain tok where "readToken env (Token params) = Inr tok"
    using readToken_total by blast
  from Register_issue [OF this, of w] None
  have "new_events w (snd (Register env params w)) = []"
    by (simp add: new_events_def)
  with issued show ?thesis by simp
next
  case (Some s)
  let ?res = "strategy_client s env params w"
  note reg = Register_after_resolver [OF Some, of env w]
  show ?thesis
  proof (cases "fst ?res")
    case (Inl err)
    with reg issued show ?thesis by auto
  next
    case (Inr c)
    have fetch: "s = Pin \<Longrightarrow> length (filter is_GetLocalCA (new_events w (snd ?res))) = 1"
      using Inr pin_connected_one_fetch [of env params w c] by simp
    from Inr reg obtain tok r where
      ev: "new_events w (snd (Register env params w)) =
             new_events w (snd ?res) @
             [EvRegisterUsingToken c (register_request params tok) r, EvClose c]"
      and res: "fst (Register env params w) =
             (case r of
                Inl err \<Rightarrow> Inl (Wrap err)
              | Inr keys \<Rightarrow> ReadIdentityFromKeyPair env (PrivateKey params)
                  (Cert keys) (TLSCert keys) (TLSCACerts keys))"
      by auto
    from issued ev have "r = Inr B" by auto
    with ev res Some fetch resolver_no_issuance [of w s env params] show ?thesis by simp
  qed
qed

theorem Register_identity_from_bundle_witness:
  "fst (Register (fake_env ''PEM-AAA'') pin_params world0) =
     ReadIdentityFromKeyPair (fake_env ''PEM-AAA'') ''private-key-K''
       ''ssh-cert-B1'' ''tls-cert-B1'' [''PEM-AAA''] \<and>
   length (filter is_RegisterUsingToken
     (new_events world0 (snd (Register (fake_env ''PEM-AAA'') pin_params world0)))) = 1 \<and>
   length (filter is_GetLocalCA
     (new_events world0 (snd (Register (fake_env ''PEM-AAA'') pin_params world0)))) = 1"
proof -
  have issued: "EvRegisterUsingToken scenario_client2 (scenario_request ''t1'') (Inr bundle_B1) \<in>
      set (new_events world0 (snd (Register (fake_env ''PEM-AAA'') pin_params world0)))"
    by (simp add: scenario_pin_match new_events_def)
  have sel: "select_strategy pin_params = Some Pin"
    by (simp add: select_strategy_def pin_params_def)
  from Register_identity_from_bundle [OF issued] sel
  show ?thesis
    by (simp add: bundle_B1_def pin_params_def)
qed

lemma resolver_ignores_PrivateKey:
  "strategy_client s env (params\<lparr>PrivateKey := K\<rparr>) w = strategy_client s env params w"
  by (cases s)
    (simp_all add: resolver_defs Let_def cong: sum.case_cong option.case_cong prod.case_cong)

lemma issue_world_ignores_PrivateKey:
  "snd (issue env (params\<lparr>PrivateKey := K\<rparr>) tok res) = snd (issue env params tok res)"
  by (cases res; cases "fst res") (simp_all add: issue_Inl issue_Inr register_request_def)

text \<open>
  Claim C5. The private key is not transmitted. Two Register runs, and two ReRegister
  runs, that differ only in the private key leave the same world: the same clients, the
  same calls, the same requests, the same answers. The keys in every RegisterUsingToken
  request are the public TLS and SSH keys of the parameters, and likewise for every
  GenerateServerKeys request of ReRegister.
\<close>

theorem private_key_not_transmitted:
  "snd (Register env (params\<lparr>PrivateKey := K\<rparr>) w) = snd (Register env params w) \<and>
   snd (ReRegister env (rparams\<lparr>re_PrivateKey := K\<rparr>) w) = snd (ReRegister env rparams w) \<and>
   (\<forall>client req r.
      EvRegisterUsingToken client req r \<in> set (new_events w (snd (Register env params w))) \<longrightarrow>
      rut_PublicTLSKey req = PublicTLSKey params \<and>
      rut_PublicSSHKey req = PublicSSHKey params) \<and>
   (\<forall>client req r.
      EvGenerateServerKeys client req r \<in> set (new_events w (snd (ReRegister env rparams w))) \<longrightarrow>
      gsk_PublicTLSKey req = re_PublicTLSKey rparams \<and>
      gsk_PublicSSHKey req = re_PublicSSHKey rparams)"
proof -
  obtain tok where tok: "readToken env (Token params) = Inr tok"
    using readToken_total by blast
  then have tok': "readToken env (Token (params\<lparr>PrivateKey := K\<rparr>)) = Inr tok"
    by simp
  have sel: "select_strategy (params\<lparr>PrivateKey := K\<rparr>) = select_strategy params"
    by (simp add: select_strategy_def)
  have "snd (Register env (params\<lparr>PrivateKey := K\<rparr>) w) = snd (Register env params w)"
    unfolding Register_issue [OF tok] Register_issue [OF tok'] sel
    by (cases "select_strategy params")
      (simp_all add: resolver_ignores_PrivateKey issue_world_ignores_PrivateKey)
  moreover have
    "snd (ReRegister env (rparams\<lparr>re_PrivateKey := K\<rparr>) w) = snd (ReRegister env rparams w)"
    by (simp add: ReRegister_def op_defs split: sum.splits)
  moreover have "\<And>client req r.
      EvRegisterUsingToken client req r \<in> set (new_events w (snd (Register env params w))) \<Longrightarrow>
      rut_PublicTLSKey req = PublicTLSKey params \<and> rut_PublicSSHKey req = PublicSSHKey params"
    using Register_requests by (fastforce simp: register_request_def)
  moreover have "\<And>client req r.
      EvGenerateServerKeys client req r \<in> set (new_events w (snd (ReRegister env rparams w))) \<Longrightarrow>
      gsk_PublicTLSKey req = re_PublicTLSKey rparams \<and>
      gsk_PublicSSHKey req = re_PublicSSHKey rparams"
    by (simp add: ReRegister_def op_defs new_events_def split: sum.splits)
  ultimately show ?thesis by blast
qed

theorem private_key_not_transmitted_witness:
  "snd (Register (fake_env ''PEM-AAA'') (pin_params\<lparr>PrivateKey := ''another-key''\<rparr>) world0) =
     snd (Register (fake_env ''PEM-AAA'') pin_params world0) \<and>
   snd (ReRegister (fake_env ''PEM-AAA'') (rotate_params\<lparr>re_PrivateKey := ''another-key''\<rparr>)
          world0) =
     snd (ReRegister (fake_env ''PEM-AAA'') rotate_params world0) \<and>
   rut_PublicTLSKey (scenario_request ''t1'') = PublicTLSKey pin_params \<and>
   rut_PublicSSHKey (scenario_request ''t1'') = PublicSSHKey pin_params"
proof -
  have issued: "EvRegisterUsingToken scenario_client2 (scenario_request ''t1'') (Inr bundle_B1) \<in>
      set (new_events world0 (snd (Register (fake_env ''PEM-AAA'') pin_params world0)))"
    by (simp add: scenario_pin_match new_events_def)
  from private_key_not_transmitted
         [where env = "fake_env ''PEM-AAA''" and params = pin_params and K = "''another-key''"
            and w = world0 and rparams = rotate_params] issued
  show ?thesis by blast
qed

section \<open>Clients are closed\<close>

text \<open>
  Claim C6. In every Register attempt, whatever the strategy and whatever the outcome,
  the clients constructed during the attempt are pairwise distinct, no client is closed
  twice, and the clients closed are exactly the clients constructed. In the pin strategy
  this covers both connections.
\<close>

theorem Register_closes_each_client_once:
  "distinct (opened_clients (new_events w (snd (Register env params w)))) \<and>
   distinct (closed_clients (new_events w (snd (Register env params w)))) \<and>
   set (closed_clients (new_events w (snd (Register env params w)))) =
     set (opened_clients (new_events w (snd (Register env params w))))"
proof -
  obtain tok where tok: "readToken env (Token params) = Inr tok"
    using readToken_total by blast
  show ?thesis
  proof (cases "select_strategy params")
    case None
    then have "Register env params w = (Inl (BadParameter no_strategy_message), w)"
      using Register_issue [OF tok] by simp
    then show ?thesis
      by (simp add: new_events_def opened_clients_def closed_clients_def)
  next
    case (Some s)
    obtain r w1 where res: "strategy_client s env params w = (r, w1)"
      by (cases "strategy_client s env params w")
    obtain evs where evs: "trace w1 = trace w @ evs"
      "distinct (opened_clients evs)" "distinct (closed_clients evs)"
      and bal: "case r of
          Inl err \<Rightarrow> set (closed_clients evs) = set (opened_clients evs)
        | Inr client \<Rightarrow> client \<notin> set (closed_clients evs) \<and>
            set (opened_clients evs) = insert client (set (closed_clients evs))"
      using resolver_clients [of s env params w] res by auto
    have reg: "Register env params w = issue env params tok (r, w1)"
      using Register_issue [OF tok] Some res by simp
    show ?thesis
    proof (cases r)
      case (Inl err)
      with reg evs bal show ?thesis
        by (simp add: issue_Inl)
    next
      case (Inr client)
      with reg evs bal show ?thesis
        by (simp add: issue_Inr opened_clients_def closed_clients_def)
    qed
  qed
qed

theorem Register_closes_each_client_once_witness:
  "opened_clients (new_events world0 (snd (Register (fake_env ''PEM-AAA'') pin_params world0))) =
     [scenario_client1, scenario_client2] \<and>
   closed_clients (new_events world0 (snd (Register (fake_env ''PEM-AAA'') pin_params world0))) =
     [scenario_client1, scenario_client2] \<and>
   distinct (closed_clients
     (new_events world0 (snd (Register (fake_env ''PEM-AAA'') pin_params world0))))"
proof -
  have opened: "opened_clients
      (new_events world0 (snd (Register (fake_env ''PEM-AAA'') pin_params world0))) =
      [scenario_client1, scenario_client2]"
    by (simp add: scenario_pin_match new_events_def opened_clients_def)
  have closed: "closed_clients
      (new_events world0 (snd (Register (fake_env ''PEM-AAA'') pin_params world0))) =
      [scenario_client1, scenario_client2]"
    by (simp add: scenario_pin_match new_events_def closed_clients_def)
  from Register_closes_each_client_once [of world0 "fake_env ''PEM-AAA''" pin_params]
    opened closed
  show ?thesis by blast
qed

section \<open>An unreadable token file\<close>

lemma resolver_ignores_Token:
  "strategy_client s env (params\<lparr>Token := t\<rparr>) w = strategy_client s env params w"
  by (cases s)
    (simp_all add: resolver_defs Let_def cong: sum.case_cong option.case_cong prod.case_cong)

lemma issue_ignores_Token:
  "issue env (params\<lparr>Token := t\<rparr>) tok res = issue env params tok res"
  by (cases res; cases "fst res")
    (simp_all add: issue_Inl issue_Inr register_request_def cong: sum.case_cong)

text \<open>
  Claim C9. For a path-marked token whose file cannot be read, readToken returns the
  empty token and no error. Register then behaves exactly as it does for the literal
  empty token: it does not stop at token resolution, and every RegisterUsingToken
  request it sends carries the empty token.
\<close>

theorem readToken_unreadable_file_is_empty_token:
  assumes marked: "HasPrefix (Token params) ''/''"
    and unreadable: "ReadFile env (Token params) = Inl err"
  shows "readToken env (Token params) = Inr [] \<and>
     Register env params w = Register env (params\<lparr>Token := []\<rparr>) w \<and>
     (\<forall>client req r.
        EvRegisterUsingToken client req r \<in> set (new_events w (snd (Register env params w))) \<longrightarrow>
        rut_Token req = [])"
proof -
  have tok: "readToken env (Token params) = Inr []"
    using marked unreadable by (simp add: readToken_def)
  have tok': "readToken env (Token (params\<lparr>Token := []\<rparr>)) = Inr []"
    by (simp add: readToken_def HasPrefix_def)
  have sel: "select_strategy (params\<lparr>Token := []\<rparr>) = select_strategy params"
    by (simp add: select_strategy_def)
  have same: "Register env params w = Register env (params\<lparr>Token := []\<rparr>) w"
    unfolding Register_issue [OF tok] Register_issue [OF tok'] sel
    by (cases "select_strategy params") (simp_all add: resolver_ignores_Token issue_ignores_Token)
  have "\<And>client req r.
      EvRegisterUsingToken client req r \<in> set (new_events w (snd (Register env params w))) \<Longrightarrow>
      rut_Token req = []"
    using Register_requests [of _ _ _ w env params] tok
    by (fastforce simp: register_request_def)
  with tok same show ?thesis by blast
qed

theorem readToken_unreadable_file_is_empty_token_witness:
  "readToken (fake_env ''PEM-AAA'') ''/missing'' = Inr [] \<and>
   fst (Register (fake_env ''PEM-AAA'') (pin_params\<lparr>Token := ''/missing''\<rparr>) world0) =
     Inl (Wrap (External ''token rejected'')) \<and>
   EvRegisterUsingToken scenario_client2 (scenario_request [])
       (Inl (External ''token rejected'')) \<in>
     set (new_events world0
       (snd (Register (fake_env ''PEM-AAA'') (pin_params\<lparr>Token := ''/missing''\<rparr>) world0)))"
proof -
  have marked: "HasPrefix (Token (pin_params\<lparr>Token := ''/missing''\<rparr>)) ''/''"
    by (simp add: HasPrefix_def)
  have unreadable: "ReadFile (fake_env ''PEM-AAA'') (Token (pin_params\<lparr>Token := ''/missing''\<rparr>)) =
      Inl (External ''no such file'')"
    by (simp add: fake_env_def)
  from readToken_unreadable_file_is_empty_token [OF marked unreadable, of world0]
  show ?thesis
    by (simp add: scenario_missing_token_file new_events_def)
qed

section \<open>Local issuance and rotation\<close>

text \<open>
  Claim C7, amended. LocalRegister performs no trust or token resolution and no operation
  of a network client: it records exactly one call, GenerateServerKeys on the in-process
  authority, with the host UUID, node name and role of the IdentityID, the additional
  principals and no public keys. Its result is the authority's error, wrapped, or
  ReadIdentityFromKeyPair (the assembly of the network path) applied to the returned
  certificates and to the private key that the authority returned in the bundle.
  LocalRegister takes no private key from its caller; the counterexample shows that the
  identity holds the authority's key where the claim as stated expects the caller's.
\<close>

theorem LocalRegister_reads_identity_from_returned_key:
  "\<exists>r. new_events w (snd (LocalRegister env ident authServer additionalPrincipals w)) =
          [EvAuthServerGenerateServerKeys
             \<lparr>gsk_HostID = HostUUID ident, gsk_NodeName = NodeName ident,
              gsk_Roles = [Role ident], gsk_AdditionalPrincipals = additionalPrincipals,
              gsk_PublicTLSKey = [], gsk_PublicSSHKey = []\<rparr> r] \<and>
        fst (LocalRegister env ident authServer additionalPrincipals w) =
          (case r of
             Inl err \<Rightarrow> Inl (Wrap err)
           | Inr keys \<Rightarrow> ReadIdentityFromKeyPair env (Key keys) (Cert keys) (TLSCert keys)
               (TLSCACerts keys)) \<and>
        filter is_client_operation
          (new_events w (snd (LocalRegister env ident authServer additionalPrincipals w))) = [] \<and>
        next_client (snd (LocalRegister env ident authServer additionalPrincipals w)) =
          next_client w"
  by (simp add: LocalRegister_def op_defs new_events_def split: sum.splits)

theorem LocalRegister_reads_identity_from_returned_key_witness:
  "fst (LocalRegister (fake_env ''PEM-AAA'') node_id fake_auth [] world0) =
     ReadIdentityFromKeyPair (fake_env ''PEM-AAA'') (Key bundle_B1) (Cert bundle_B1)
       (TLSCert bundle_B1) (TLSCACerts bundle_B1) \<and>
   filter is_client_operation
     (new_events world0 (snd (LocalRegister (fake_env ''PEM-AAA'') node_id fake_auth [] world0))) =
     []"
proof -
  have call: "new_events world0
      (snd (LocalRegister (fake_env ''PEM-AAA'') node_id fake_auth [] world0)) =
      [EvAuthServerGenerateServerKeys
         \<lparr>gsk_HostID = HostUUID node_id, gsk_NodeName = NodeName node_id,
          gsk_Roles = [Role node_id], gsk_AdditionalPrincipals = [],
          gsk_PublicTLSKey = [], gsk_PublicSSHKey = []\<rparr> (Inr bundle_B1)]"
    by (simp add: LocalRegister_def op_defs new_events_def fake_auth_def emit_def)
  from LocalRegister_reads_identity_from_returned_key
         [of world0 "fake_env ''PEM-AAA''" node_id fake_auth "[]"] call
  show ?thesis by auto
qed

theorem LocalRegister_caller_key_counterexample:
  "fst (LocalRegister (fake_env ''PEM-AAA'') node_id fake_auth [] world0) =
     Inr \<lparr>KeyBytes = ''authority-key'', CertBytes = ''ssh-cert-B1'',
          TLSCertBytes = ''tls-cert-B1'', TLSCACertsBytes = [''PEM-AAA'']\<rparr> \<and>
   fst (LocalRegister_as_specified (fake_env ''PEM-AAA'') node_id fake_auth []
          ''private-key-K'' world0) =
     Inr \<lparr>KeyBytes = ''private-key-K'', CertBytes = ''ssh-cert-B1'',
          TLSCertBytes = ''tls-cert-B1'', TLSCACertsBytes = [''PEM-AAA'']\<rparr> \<and>
   fst (LocalRegister (fake_env ''PEM-AAA'') node_id fake_auth [] world0) \<noteq>
     fst (LocalRegister_as_specified (fake_env ''PEM-AAA'') node_id fake_auth []
            ''private-key-K'' world0)"
  by (simp add: LocalRegister_def LocalRegister_as_specified_def op_defs fake_env_def
      fake_auth_def bundle_B1_def world0_def node_id_def)




end
